theory Spec2Isabelle
  imports Main
begin

section \<open>JavaScript string primitives used by the build script\<close>

text \<open>Strings are lists of characters. \<open>String.prototype.startsWith\<close> and
  \<open>String.prototype.endsWith\<close>.\<close>

definition startsWith :: "string \<Rightarrow> string \<Rightarrow> bool" where
  "startsWith s pre = (take (length pre) s = pre)"

definition endsWith :: "string \<Rightarrow> string \<Rightarrow> bool" where
  "endsWith s suf = (length suf \<le> length s \<and> drop (length s - length suf) s = suf)"

text \<open>\<open>String.prototype.indexOf\<close>: position of the first occurrence, \<open>None\<close> for -1.\<close>

fun indexOf :: "string \<Rightarrow> string \<Rightarrow> nat option" where
  "indexOf [] pat = (if pat = [] then Some 0 else None)"
| "indexOf (c # cs) pat =
     (if startsWith (c # cs) pat then Some 0 else map_option Suc (indexOf cs pat))"

text \<open>The replacement-string expansion of \<open>String.prototype.replace\<close> (ECMAScript
  GetSubstitution) for a pattern without capture groups: \<open>$$\<close> is a dollar sign,
  \<open>$&\<close> the matched text, \<open>$`\<close> the text preceding the match, \<open>$'\<close> the text following it;
  every other character, and a dollar sign followed by anything else, is literal.\<close>

fun getSubstitution :: "string \<Rightarrow> string \<Rightarrow> string \<Rightarrow> string \<Rightarrow> string" where
  "getSubstitution matched preceding following (d # c # r) =
     (if d = CHR ''$'' then
        (if c = CHR ''$'' then CHR ''$'' # getSubstitution matched preceding following r
         else if c = CHR ''&'' then matched @ getSubstitution matched preceding following r
         else if c = CHR 0x60 then preceding @ getSubstitution matched preceding following r
         else if c = CHR 0x27 then following @ getSubstitution matched preceding following r
         else d # getSubstitution matched preceding following (c # r))
      else d # getSubstitution matched preceding following (c # r))"
| "getSubstitution matched preceding following [d] = [d]"
| "getSubstitution matched preceding following [] = []"

text \<open>\<open>s.replace(pat, repl)\<close> with a string pattern, and with a regular expression
  that is a literal without the \<open>g\<close> flag: only the first occurrence is replaced.\<close>

definition replace_first :: "string \<Rightarrow> string \<Rightarrow> string \<Rightarrow> string" where
  "replace_first s pat repl =
     (case indexOf s pat of
        None \<Rightarrow> s
      | Some i \<Rightarrow>
          (let preceding = take i s; following = drop (i + length pat) s
           in preceding @ getSubstitution pat preceding following repl @ following))"

text \<open>\<open>String.prototype.split\<close> with a one-character separator: never the empty array.\<close>

fun split_on :: "char \<Rightarrow> string \<Rightarrow> string list" where
  "split_on sep [] = [[]]"
| "split_on sep (c # cs) =
     (if c = sep then [] # split_on sep cs
      else (case split_on sep cs of w # ws \<Rightarrow> (c # w) # ws | [] \<Rightarrow> [[c]]))"

text \<open>\<open>Array.prototype.join\<close> with a separator.\<close>

fun join_with :: "string \<Rightarrow> string list \<Rightarrow> string" where
  "join_with sep [] = []"
| "join_with sep [x] = x"
| "join_with sep (x # y # ys) = x @ sep @ join_with sep (y # ys)"


section \<open>The POSIX \<open>path\<close> module of Node.js\<close>

text \<open>\<open>path.basename(p)\<close>: trailing separators are ignored, the result is the last
  component.\<close>

definition path_basename :: "string \<Rightarrow> string" where
  "path_basename p =
     rev (takeWhile (\<lambda>c. c \<noteq> CHR ''/'') (dropWhile (\<lambda>c. c = CHR ''/'') (rev p)))"

text \<open>\<open>path.basename(p, ext)\<close>: the last component without the suffix \<open>ext\<close>, unless the
  component is the suffix itself.\<close>

definition path_basename_ext :: "string \<Rightarrow> string \<Rightarrow> string" where
  "path_basename_ext p ext =
     (if ext = [] \<or> length p < length ext then path_basename p
      else if ext = p then []
      else (let b = path_basename p
            in if endsWith b ext \<and> b \<noteq> ext then take (length b - length ext) b else b))"

text \<open>\<open>path.extname(p)\<close>: from the last dot of the last component to its end; empty
  when there is no dot, when the only dot is the component's first character, and for
  the component \<open>..\<close>.\<close>

definition path_extname :: "string \<Rightarrow> string" where
  "path_extname p =
     (let c = path_basename p;
          suf = takeWhile (\<lambda>x. x \<noteq> CHR ''.'') (rev c);
          rest = dropWhile (\<lambda>x. x \<noteq> CHR ''.'') (rev c)
      in if rest = [] then []
         else if tl rest = [] then []
         else if c = ''..'' then []
         else CHR ''.'' # rev suf)"

text \<open>\<open>path.dirname(p)\<close>: the scan runs from the end down to index 1, skips trailing
  separators and stops at the separator preceding the last component.\<close>

definition path_dirname :: "string \<Rightarrow> string" where
  "path_dirname p =
     (if p = [] then ''.''
      else
        (let hasRoot = (hd p = CHR ''/'');
             stripped = dropWhile (\<lambda>c. c = CHR ''/'') (rev (tl p));
             rest = dropWhile (\<lambda>c. c \<noteq> CHR ''/'') stripped
         in if rest = [] then (if hasRoot then ''/'' else ''.'')
            else if hasRoot \<and> tl rest = [] then ''//''
            else hd p # rev (tl rest)))"

text \<open>\<open>path.normalize\<close>: empty and \<open>.\<close> segments are dropped, \<open>..\<close> removes the segment
  preceding it (or is kept in a relative path that has none left).\<close>

definition normalize_step :: "bool \<Rightarrow> string list \<Rightarrow> string \<Rightarrow> string list" where
  "normalize_step allowAboveRoot res seg =
     (if seg = [] \<or> seg = ''.'' then res
      else if seg = ''..'' then
        (if res \<noteq> [] \<and> last res \<noteq> ''..'' then butlast res
         else if allowAboveRoot then res @ [''..'']
         else res)
      else res @ [seg])"

definition normalizeString :: "string \<Rightarrow> bool \<Rightarrow> string" where
  "normalizeString p allowAboveRoot =
     join_with ''/'' (foldl (normalize_step allowAboveRoot) [] (split_on CHR ''/'' p))"

definition path_normalize :: "string \<Rightarrow> string" where
  "path_normalize p =
     (if p = [] then ''.''
      else
        (let isAbsolute = (hd p = CHR ''/'');
             trailingSeparator = (last p = CHR ''/'');
             q = normalizeString p (\<not> isAbsolute)
         in if q = [] then (if isAbsolute then ''/'' else if trailingSeparator then ''./'' else ''.'')
            else (if isAbsolute then ''/'' else []) @ q @ (if trailingSeparator then ''/'' else [])))"

text \<open>\<open>path.join(...args)\<close>: the non-empty arguments joined by the separator, normalized.\<close>

definition path_join :: "string list \<Rightarrow> string" where
  "path_join args =
     (let joined = filter (\<lambda>a. a \<noteq> []) args
      in if joined = [] then ''.'' else path_normalize (join_with ''/'' joined))"


section \<open>External collaborators of \<open>build/assets.js\<close>\<close>

text \<open>An exception value, as thrown by a transform or by file I/O.\<close>

type_synonym exn = string

text \<open>The pairs \<open>{src, dest}\<close> returned by \<open>getAssetFiles\<close> and \<open>findFiles\<close>.\<close>

record asset =
  src :: string
  dest :: string

text \<open>The arguments the script stage passes to \<open>esbuild.build\<close> that vary between calls.\<close>

record esbuild_args =
  entryPoint :: string
  define_ENV :: string
  minify_flag :: bool
  globalName :: "string option"
  pug_translate :: "string \<Rightarrow> string"
  metafile :: bool

text \<open>What \<open>parseCourse\<close> returns when it returns data: the serialised course (if any)
  and the primary source file.\<close>

record course_data =
  course :: "string option"
  srcFile :: string

text \<open>Everything the module imports and does not define: the constants of
  \<open>./utilities\<close>, the project configuration, the process environment, the source
  trees as seen through \<open>glob\<close>, \<open>findFiles\<close> and \<open>readFile\<close>, and the four
  transforms. A transform either throws or returns its result; \<open>writeFile_error\<close>
  tells for which destination a write throws, \<open>glob_error\<close> and \<open>findFiles_error\<close> for
  which arguments \<open>glob.sync\<close> and \<open>findFiles\<close> throw (an unreadable root) instead of
  returning the list that \<open>glob_sync\<close> and \<open>findFiles\<close> give; \<open>parseCourse\<close> returns the
  URLs it adds to \<open>COURSE_URLS\<close> along with its result.\<close>

record env =
  PROJECT_ASSETS :: string
  STUDIO_ASSETS :: string
  CONTENT :: string
  OUTPUT :: string
  CONFIG_banner :: string
  CONFIG_domain :: string
  CONFIG_sitemap :: "string list"
  process_cwd :: string
  module_dirname :: string
  glob_sync :: "string \<Rightarrow> string \<Rightarrow> string list"
  glob_error :: "string \<Rightarrow> string \<Rightarrow> exn option"
  findFiles :: "string \<Rightarrow> string \<Rightarrow> string \<Rightarrow> asset list"
  findFiles_error :: "string \<Rightarrow> string \<Rightarrow> string \<Rightarrow> exn option"
  readFile :: "string \<Rightarrow> exn + string"
  writeFile_error :: "string \<Rightarrow> exn option"
  textHash :: "string \<Rightarrow> string"
  esbuild_build :: "esbuild_args \<Rightarrow> exn + (string \<times> string list)"
  sass_renderSync :: "string \<Rightarrow> exn + (string \<times> string list)"
  postcss_process :: "bool \<Rightarrow> bool \<Rightarrow> string \<Rightarrow> exn + string"
  parseCourse :: "string \<Rightarrow> string \<Rightarrow> string list \<Rightarrow> exn + (course_data option \<times> string list)"


section \<open>Tools: canonical names and the overlay of the two asset roots\<close>

text \<open>\<open>basename(p)\<close>: the basename of a path, but \<open>/a/b/c/index.js\<close> resolves to
  \<open>c.js\<close>.\<close>

definition basename :: "string \<Rightarrow> string" where
  "basename p =
     (let name = path_basename p; ext = path_extname p
      in if startsWith name ''index.''
         then last (split_on CHR ''/'' (path_dirname p)) @ ext
         else name)"

text \<open>The first line of \<open>getAssetFiles\<close>: the pattern matches \<open>abc.js\<close> as well as
  \<open>abc/index.js\<close>.\<close>

definition overlayPattern :: "string \<Rightarrow> string" where
  "overlayPattern pattern0 = replace_first pattern0 ''*'' ''{*,*/index}''"

text \<open>\<open>glob.sync(pattern, {cwd: root}).map(c => path.join(root, c))\<close>.\<close>

definition rootFiles :: "env \<Rightarrow> string \<Rightarrow> string \<Rightarrow> string list" where
  "rootFiles e root pattern0 =
     map (\<lambda>c. path_join [root, c]) (glob_sync e (overlayPattern pattern0) root)"

text \<open>\<open>getAssetFiles(pattern)\<close>: all files of the project or of the core directory that
  match; a core file whose canonical name a project file has is left out.\<close>

definition getAssetFiles :: "env \<Rightarrow> string \<Rightarrow> asset list" where
  "getAssetFiles e pattern0 =
     (let projectFiles = rootFiles e (PROJECT_ASSETS e) pattern0;
          projectFileNames = map basename projectFiles;
          studioFiles = filter (\<lambda>p. basename p \<notin> set projectFileNames)
                          (rootFiles e (STUDIO_ASSETS e) pattern0)
      in map (\<lambda>s. \<lparr>src = s, dest = path_join [OUTPUT e, basename s]\<rparr>)
             (studioFiles @ projectFiles))"

text \<open>The exception of a call \<open>getAssetFiles(pattern)\<close>, if it throws: that of the scan
  of the project root, or else that of the scan of the core root.\<close>

definition getAssetFiles_error :: "env \<Rightarrow> string \<Rightarrow> exn option" where
  "getAssetFiles_error e pattern0 =
     (case glob_error e (overlayPattern pattern0) (PROJECT_ASSETS e) of
        Some x \<Rightarrow> Some x
      | None \<Rightarrow> glob_error e (overlayPattern pattern0) (STUDIO_ASSETS e))"


section \<open>Program state and effects\<close>

text \<open>The \<open>options\<close> argument of \<open>bundleScripts\<close>; every property is optional.\<close>

record options =
  opt_locales :: "string list option"
  opt_env :: "string option"
  opt_name :: "string option"
  opt_translate :: "(string \<Rightarrow> string \<Rightarrow> string option) option"

text \<open>The callbacks handed to \<open>watchFiles\<close>: each is a closure over the arguments of
  the call it repeats.\<close>

datatype rebuild =
    RebuildStyles string string bool
  | RebuildScripts string string bool options
  | RebuildMarkdown string string "string list" string

datatype log_entry = Success string | Failure string exn

text \<open>A promise is started when the async function is called and settled when it is
  awaited (directly or through \<open>Promise.all\<close>).\<close>

datatype event = Started string | Settled string

text \<open>The mutable state: the module variable \<open>iconsPath\<close>, the set \<open>COURSE_URLS\<close> of
  \<open>./markdown\<close> in insertion order, the calls of \<open>writeFile\<close> that succeeded, the
  console log of \<open>success\<close> and \<open>error\<close>, the registrations made through \<open>watchFiles\<close>,
  and the promise events.\<close>

record world =
  iconsPath :: string
  COURSE_URLS :: "string list"
  written :: "(string \<times> string) list"
  logged :: "log_entry list"
  watching :: "(string list \<times> rebuild) list"
  trace :: "event list"

text \<open>The state when the module has been loaded: \<open>let iconsPath = '/icons.svg'\<close>.\<close>

definition initial_world :: world where
  "initial_world =
     \<lparr>iconsPath = ''/icons.svg'', COURSE_URLS = [], written = [], logged = [],
      watching = [], trace = []\<rparr>"

text \<open>An async function either throws or returns, and changes the state in both cases.\<close>

type_synonym 'a io = "world \<Rightarrow> (exn + 'a) \<times> world"

definition io_return :: "'a \<Rightarrow> 'a io" where
  "io_return x = (\<lambda>w. (Inr x, w))"

definition io_throw :: "exn \<Rightarrow> 'a io" where
  "io_throw x = (\<lambda>w. (Inl x, w))"

definition io_lift :: "exn + 'a \<Rightarrow> 'a io" where
  "io_lift r = (\<lambda>w. (r, w))"

definition io_bind :: "'a io \<Rightarrow> ('a \<Rightarrow> 'b io) \<Rightarrow> 'b io" where
  "io_bind m f = (\<lambda>w. case m w of (Inl x, w') \<Rightarrow> (Inl x, w') | (Inr v, w') \<Rightarrow> f v w')"

text \<open>\<open>promise.catch(handler)\<close>.\<close>

definition io_catch :: "unit io \<Rightarrow> (exn \<Rightarrow> unit io) \<Rightarrow> unit io" where
  "io_catch m h = (\<lambda>w. case m w of (Inl x, w') \<Rightarrow> h x w' | (Inr v, w') \<Rightarrow> (Inr v, w'))"

text \<open>\<open>for (const x of xs) { await body(x) }\<close>.\<close>

fun io_forEach :: "'a list \<Rightarrow> ('a \<Rightarrow> unit io) \<Rightarrow> unit io" where
  "io_forEach [] body = io_return ()"
| "io_forEach (x # xs) body = io_bind (body x) (\<lambda>_. io_forEach xs body)"

text \<open>\<open>xs.map(f)\<close> for an \<open>f\<close> that may throw: the first exception ends the map.\<close>

fun collect :: "(exn + 'a) list \<Rightarrow> exn + 'a list" where
  "collect [] = Inr []"
| "collect (r # rs) =
     (case r of Inl x \<Rightarrow> Inl x
      | Inr v \<Rightarrow> (case collect rs of Inl x \<Rightarrow> Inl x | Inr vs \<Rightarrow> Inr (v # vs)))"

text \<open>Modelled from the spec: \<open>writeFile\<close>, \<open>success\<close>, \<open>error\<close> and \<open>watchFiles\<close> of
  \<open>./utilities\<close>, which is not among the sources. \<open>writeFile\<close> writes one output file or
  throws; \<open>success\<close> reports a unit; \<open>error(id)\<close> is the handler that logs a failure with
  the unit's identity and does not throw; \<open>watchFiles\<close> registers a dependency list with
  its rebuild callback.\<close>

definition writeFile :: "env \<Rightarrow> string \<Rightarrow> string \<Rightarrow> unit io" where
  "writeFile e path content =
     (\<lambda>w. case writeFile_error e path of
             Some x \<Rightarrow> (Inl x, w)
           | None \<Rightarrow> (Inr (), w\<lparr>written := written w @ [(path, content)]\<rparr>))"

definition success :: "string \<Rightarrow> unit io" where
  "success ident = (\<lambda>w. (Inr (), w\<lparr>logged := logged w @ [Success ident]\<rparr>))"

definition error_handler :: "string \<Rightarrow> exn \<Rightarrow> unit io" where
  "error_handler ident x = (\<lambda>w. (Inr (), w\<lparr>logged := logged w @ [Failure ident x]\<rparr>))"

definition watchFiles :: "string list \<Rightarrow> rebuild \<Rightarrow> unit io" where
  "watchFiles fs callback = (\<lambda>w. (Inr (), w\<lparr>watching := watching w @ [(fs, callback)]\<rparr>))"


section \<open>Scripts\<close>

text \<open>White space of \<open>String.prototype.trim\<close> and of the class \<open>\s\<close>, among the
  characters below 256: tab, line feed, vertical tab, form feed, carriage return, space
  and no-break space.\<close>

definition isSpace :: "char \<Rightarrow> bool" where
  "isSpace c = (c = CHR 0x09 \<or> c = CHR 0x0A \<or> c = CHR 0x0B \<or> c = CHR 0x0C \<or> c = CHR 0x0D
                \<or> c = CHR 0x20 \<or> c = CHR 0xA0)"

definition js_trim :: "string \<Rightarrow> string" where
  "js_trim s = rev (dropWhile isSpace (rev (dropWhile isSpace s)))"

text \<open>The class \<open>\w\<close>: letters, digits and the underscore.\<close>

definition isWord :: "char \<Rightarrow> bool" where
  "isWord c =
     (let n = (of_char c :: nat)
      in (65 \<le> n \<and> n \<le> 90) \<or> (97 \<le> n \<and> n \<le> 122) \<or> (48 \<le> n \<and> n \<le> 57) \<or> n = 95)"

text \<open>\<open>.replace(/\/\*![\s\S]*?\*\//g, '')\<close>: every \<open>/*! ... */\<close> comment, up to the
  first \<open>*/\<close> that follows its opening, is removed.\<close>

function removeComments :: "string \<Rightarrow> string" where
  "removeComments [] = []"
| "removeComments (c # cs) =
     (if startsWith (c # cs) ''/*!'' then
        (case indexOf (drop 3 (c # cs)) ''*/'' of
           Some k \<Rightarrow> removeComments (drop (3 + k + 2) (c # cs))
         | None \<Rightarrow> c # removeComments cs)
      else c # removeComments cs)"
  by pat_completeness auto
termination
  by (relation "measure length") auto

text \<open>\<open>.replace(/require\(['"]vue['"]\)/g, 'window.Vue')\<close>: the two quotes need not be
  the same; a match is 14 characters long.\<close>

definition isQuote :: "char \<Rightarrow> bool" where
  "isQuote c = (c = CHR 0x27 \<or> c = CHR 0x22)"

definition matchesRequireVue :: "string \<Rightarrow> bool" where
  "matchesRequireVue s =
     (startsWith s ''require('' \<and>
      (case drop 8 s of
         [] \<Rightarrow> False
       | q1 # r \<Rightarrow> isQuote q1 \<and> startsWith r ''vue'' \<and>
           (case drop 3 r of
              [] \<Rightarrow> False
            | q2 # r2 \<Rightarrow> isQuote q2 \<and> startsWith r2 '')'')))"

function fixVueImports :: "string \<Rightarrow> string" where
  "fixVueImports [] = []"
| "fixVueImports (c # cs) =
     (if matchesRequireVue (c # cs) then ''window.Vue'' @ fixVueImports (drop 14 (c # cs))
      else c # fixVueImports cs)"
  by pat_completeness auto
termination
  by (relation "measure length") auto

text \<open>\<open>.replace(/\/icons\.svg/, iconsPath)\<close>: the expression has no \<open>g\<close> flag.\<close>

definition cacheBustIcons :: "string \<Rightarrow> string \<Rightarrow> string" where
  "cacheBustIcons t published = replace_first t ''/icons.svg'' published"

text \<open>\<open>.replace(/<<([\w\s:]+)>>/g, (_, str) => f(str))\<close>: a marker is \<open><<\<close>, a
  non-empty run of word, space and colon characters, and \<open>>>\<close> right after the run.\<close>

definition isMarkerChar :: "char \<Rightarrow> bool" where
  "isMarkerChar c = (isWord c \<or> isSpace c \<or> c = CHR '':'')"

function replaceMarkers :: "(string \<Rightarrow> string) \<Rightarrow> string \<Rightarrow> string" where
  "replaceMarkers f [] = []"
| "replaceMarkers f (c # cs) =
     (if startsWith (c # cs) ''<<''
         \<and> takeWhile isMarkerChar (drop 2 (c # cs)) \<noteq> []
         \<and> startsWith (dropWhile isMarkerChar (drop 2 (c # cs))) ''>>''
      then f (takeWhile isMarkerChar (drop 2 (c # cs)))
           @ replaceMarkers f (drop 2 (dropWhile isMarkerChar (drop 2 (c # cs))))
      else c # replaceMarkers f cs)"
  by pat_completeness auto
termination
proof (relation "measure (\<lambda>(f, s). length s)", goal_cases)
  case 1
  show ?case by simp
next
  case (2 f c cs)
  have "length (dropWhile isMarkerChar (drop 2 (c # cs))) \<le> length (drop 2 (c # cs))"
    by (rule length_dropWhile_le)
  then show ?case by simp
next
  case (3 f c cs)
  show ?case by simp
qed

text \<open>\<open>str => options.translate?.(locale, str) || str\<close>: without a translation function,
  and for an undefined or empty translation, the key itself.\<close>

definition translateOrKey :: "options \<Rightarrow> string \<Rightarrow> string \<Rightarrow> string" where
  "translateOrKey opts locale str =
     (case opt_translate opts of
        None \<Rightarrow> str
      | Some t \<Rightarrow> (case t locale str of None \<Rightarrow> str | Some r \<Rightarrow> if r = [] then str else r))"

text \<open>The destination of one locale's bundle.\<close>

definition localeDest :: "string \<Rightarrow> string \<Rightarrow> string" where
  "localeDest destPath locale =
     (if locale = ''en'' then destPath
      else replace_first destPath ''.js'' (''.'' @ locale @ ''.js''))"

text \<open>The body of the loop over the locales in \<open>bundleScripts\<close>; it returns the new value
  of the variable \<open>inputs\<close>, which is undefined unless a metafile was asked for.\<close>

definition bundleScriptLocale ::
  "env \<Rightarrow> string \<Rightarrow> string \<Rightarrow> bool \<Rightarrow> bool \<Rightarrow> options \<Rightarrow> string \<Rightarrow> (string list option) io" where
  "bundleScriptLocale e srcPath destPath minify watch opts locale =
     (\<lambda>w. case esbuild_build e
                 \<lparr>entryPoint = srcPath,
                  define_ENV = [CHR 0x22] @ (case opt_env opts of None \<Rightarrow> ''WEB''
                       | Some v \<Rightarrow> if v = [] then ''WEB'' else v) @ [CHR 0x22],
                  minify_flag = minify,
                  globalName = opt_name opts,
                  pug_translate = translateOrKey opts locale,
                  metafile = watch\<rparr> of
             Inl x \<Rightarrow> (Inl x, w)
           | Inr (bundled, keys) \<Rightarrow>
               (let inputs = (if watch then Some keys else None);
                    t = cacheBustIcons (fixVueImports (removeComments (js_trim bundled)))
                          (iconsPath w);
                    output = replaceMarkers (translateOrKey opts locale) t
                in io_bind (writeFile e (localeDest destPath locale) output)
                     (\<lambda>_. io_return inputs) w))"

fun scriptLocales ::
  "env \<Rightarrow> string \<Rightarrow> string \<Rightarrow> bool \<Rightarrow> bool \<Rightarrow> options \<Rightarrow> string list \<Rightarrow> string list option
     \<Rightarrow> (string list option) io" where
  "scriptLocales e srcPath destPath minify watch opts [] inputs = io_return inputs"
| "scriptLocales e srcPath destPath minify watch opts (locale # rest) inputs =
     io_bind (bundleScriptLocale e srcPath destPath minify watch opts locale)
       (\<lambda>inputs'. scriptLocales e srcPath destPath minify watch opts rest inputs')"

text \<open>\<open>bundleScripts(srcPath, destPath, minify, watch, options)\<close>. With \<open>watch\<close> and no
  locale at all, \<open>Object.keys(undefined)\<close> throws.\<close>

definition bundleScripts ::
  "env \<Rightarrow> string \<Rightarrow> string \<Rightarrow> bool \<Rightarrow> bool \<Rightarrow> options \<Rightarrow> unit io" where
  "bundleScripts e srcPath destPath0 minify watch opts =
     (let destPath = (if endsWith destPath0 ''.ts'' then replace_first destPath0 ''.ts'' ''.js''
                      else destPath0)
      in if endsWith srcPath ''.d.ts'' then io_return ()
         else
           io_bind (scriptLocales e srcPath destPath minify watch opts
                      (case opt_locales opts of None \<Rightarrow> [''en''] | Some ls \<Rightarrow> ls) None)
             (\<lambda>inputs.
                io_bind
                  (if watch then
                     (case inputs of
                        None \<Rightarrow> io_throw ''TypeError''
                      | Some keys \<Rightarrow>
                          watchFiles
                            (map (\<lambda>f. path_join [process_cwd e, f])
                                 (filter (\<lambda>f. \<not> startsWith f ''node_modules'') keys))
                            (RebuildScripts srcPath destPath minify opts))
                   else io_return ())
                  (\<lambda>_. success srcPath)))"

text \<open>The call \<open>bundleScripts(src, dest, minify, watch)\<close> leaves \<open>options\<close> at \<open>{}\<close>.\<close>

definition noOptions :: options where
  "noOptions = \<lparr>opt_locales = None, opt_env = None, opt_name = None, opt_translate = None\<rparr>"


section \<open>Styles\<close>

text \<open>\<open>bundleStyles(srcPath, destPath, minify, watch)\<close>: \<open>sass.renderSync\<close> gives the
  stylesheet and the files it included; the stylesheet is processed and written twice,
  plain and mirrored.\<close>

definition bundleStyles :: "env \<Rightarrow> string \<Rightarrow> string \<Rightarrow> bool \<Rightarrow> bool \<Rightarrow> unit io" where
  "bundleStyles e srcPath destPath0 minify watch =
     (let destPath = (if endsWith destPath0 ''.scss''
                      then replace_first destPath0 ''.scss'' ''.css'' else destPath0)
      in io_bind (io_lift (sass_renderSync e srcPath))
           (\<lambda>(css, included).
              let banner = ''/* '' @ CONFIG_banner e @ '', generated by Mathigon Studio */''
                           @ [CHR 0x0A]
              in io_bind
                   (io_forEach [False, True]
                      (\<lambda>rtl. io_bind (io_lift (postcss_process e rtl minify css))
                         (\<lambda>transformed.
                            writeFile e
                              (if rtl then replace_first destPath ''.css'' ''.rtl.css''
                               else destPath)
                              (banner @ transformed))))
                   (\<lambda>_. io_bind
                           (if watch
                            then watchFiles included (RebuildStyles srcPath destPath minify)
                            else io_return ())
                           (\<lambda>_. success srcPath))))"


section \<open>Markdown courses\<close>

text \<open>\<open>COURSE_URLS\<close> is a set: adding a URL it has changes nothing.\<close>

definition addCourseURL :: "string list \<Rightarrow> string \<Rightarrow> string list" where
  "addCourseURL urls u = (if u \<in> set urls then urls else urls @ [u])"

text \<open>\<open>bundleMarkdown(id, locale, allLocales, watch, base)\<close>.\<close>

definition bundleMarkdown ::
  "env \<Rightarrow> string \<Rightarrow> string \<Rightarrow> string list \<Rightarrow> bool \<Rightarrow> string \<Rightarrow> unit io" where
  "bundleMarkdown e cid locale allLocales watch base =
     (\<lambda>w. case parseCourse e (path_join [base, cid]) locale allLocales of
             Inl x \<Rightarrow> (Inl x, w)
           | Inr (parsed, urls) \<Rightarrow>
               (let w1 = w\<lparr>COURSE_URLS := foldl addCourseURL (COURSE_URLS w) urls\<rparr>
                in case parsed of
                     None \<Rightarrow> (Inr (), w1)
                   | Some d \<Rightarrow>
                       io_bind
                         (case course d of
                            None \<Rightarrow> io_return ()
                          | Some json \<Rightarrow>
                              io_bind
                                (writeFile e
                                   (path_join [OUTPUT e, ''content'', cid,
                                               ''data_'' @ locale @ ''.json''])
                                   json)
                                (\<lambda>_. success (''course '' @ cid @ '' ['' @ locale @ '']'')))
                         (\<lambda>_. if watch
                               then watchFiles [srcFile d]
                                      (RebuildMarkdown cid locale allLocales base)
                               else io_return ())
                         w1))"


section \<open>Miscellaneous files\<close>

definition dq :: string where
  "dq = [CHR 0x22]"

text \<open>One icon of the sprite: the file's \<open>svg\<close> element becomes a \<open>symbol\<close> named after
  the file.\<close>

definition iconSymbol :: "string \<Rightarrow> string \<Rightarrow> string" where
  "iconSymbol srcPath content =
     replace_first
       (replace_first
          (replace_first content ('' xmlns='' @ dq @ ''http://www.w3.org/2000/svg'' @ dq) [])
          ''<svg '' (''<symbol id='' @ dq @ path_basename_ext srcPath ''.svg'' @ dq @ '' ''))
       ''</svg>'' ''</symbol>''"

definition spriteHeader :: string where
  "spriteHeader =
     ''<?xml version='' @ dq @ ''1.0'' @ dq @ '' encoding='' @ dq @ ''UTF-8'' @ dq
     @ ''?><!DOCTYPE svg PUBLIC '' @ dq @ ''-//W3C//DTD SVG 1.1//EN'' @ dq @ '' '' @ dq
     @ ''http://www.w3.org/Graphics/SVG/1.1/DTD/svg11.dtd'' @ dq @ ''><svg xmlns='' @ dq
     @ ''http://www.w3.org/2000/svg'' @ dq @ '' xmlns:xlink='' @ dq
     @ ''http://www.w3.org/1999/xlink'' @ dq @ ''>''"

text \<open>The assembled sprite \<open>symbols\<close>, or the exception of the enumeration of the icons
  or of the first icon that cannot be read.\<close>

definition iconSprite :: "env \<Rightarrow> exn + string" where
  "iconSprite e =
     (case getAssetFiles_error e ''assets/icons/*.svg'' of
        Some x \<Rightarrow> Inl x
      | None \<Rightarrow>
          (case collect (map (\<lambda>a. case readFile e (src a) of
                                     Inl x \<Rightarrow> Inl x
                                   | Inr content \<Rightarrow> Inr (iconSymbol (src a) content))
                             (getAssetFiles e ''assets/icons/*.svg'')) of
             Inl x \<Rightarrow> Inl x
           | Inr icons \<Rightarrow> Inr (spriteHeader @ concat icons @ ''</svg>'')))"

text \<open>The assignment to the module variable \<open>iconsPath\<close>.\<close>

definition setIconsPath :: "string \<Rightarrow> unit io" where
  "setIconsPath p = (\<lambda>w. (Inr (), w\<lparr>iconsPath := p\<rparr>))"

definition bundleIcons :: "env \<Rightarrow> unit io" where
  "bundleIcons e =
     io_bind (io_lift (iconSprite e))
       (\<lambda>symbols.
          io_bind (setIconsPath (''/icons.'' @ take 8 (textHash e symbols) @ ''.svg''))
            (\<lambda>_. io_bind (writeFile e (path_join [OUTPUT e, ''icons.svg'']) symbols)
                    (\<lambda>_. success ''icons.svg'')))"

text \<open>\<open>.replace(/\n\/\/# sourceMappingURL=.*\n/g, '\n')\<close>: the dot matches everything but
  a line terminator.\<close>

definition sourceMapMark :: string where
  "sourceMapMark = CHR 0x0A # ''//# sourceMappingURL=''"

definition notLineEnd :: "char \<Rightarrow> bool" where
  "notLineEnd c = (c \<noteq> CHR 0x0A \<and> c \<noteq> CHR 0x0D)"

function stripSourceMaps :: "string \<Rightarrow> string" where
  "stripSourceMaps [] = []"
| "stripSourceMaps (c # cs) =
     (if startsWith (c # cs) sourceMapMark
         \<and> startsWith (dropWhile notLineEnd (drop (length sourceMapMark) (c # cs))) [CHR 0x0A]
      then CHR 0x0A
           # stripSourceMaps
               (drop 1 (dropWhile notLineEnd (drop (length sourceMapMark) (c # cs))))
      else c # stripSourceMaps cs)"
  by pat_completeness auto
termination
proof (relation "measure length", goal_cases)
  case 1
  show ?case by simp
next
  case (2 c cs)
  have "length (dropWhile notLineEnd (drop (length sourceMapMark) (c # cs)))
          \<le> length (drop (length sourceMapMark) (c # cs))"
    by (rule length_dropWhile_le)
  then show ?case by (simp add: sourceMapMark_def)
next
  case (3 c cs)
  show ?case by simp
qed

definition createPolyfill :: "env \<Rightarrow> unit io" where
  "createPolyfill e =
     (let modules = path_join [module_dirname e, ''../node_modules'']
      in io_bind (io_lift (readFile e (modules @ ''/web-animations-js/web-animations.min.js'')))
           (\<lambda>f1. io_bind
                    (io_lift (readFile e (modules
                       @ ''/@webcomponents/custom-elements/custom-elements.min.js'')))
                    (\<lambda>f2. writeFile e (path_join [OUTPUT e, ''polyfill.js''])
                             (stripSourceMaps (join_with [CHR 0x0A] [f1, f2])))))"

text \<open>The sitemap: the list \<open>['/', ...COURSE_URLS, ...CONFIG.sitemap, ...URLs]\<close>, one
  \<open>url\<close> element for each member, inside one \<open>urlset\<close>.\<close>

definition sitemapURLs :: "env \<Rightarrow> world \<Rightarrow> string list \<Rightarrow> string list" where
  "sitemapURLs e w URLs = [''/''] @ COURSE_URLS w @ CONFIG_sitemap e @ URLs"

definition sitemapEntry :: "env \<Rightarrow> string \<Rightarrow> string" where
  "sitemapEntry e url =
     ''<url><loc>https://'' @ CONFIG_domain e @ url @ ''</loc>''
     @ ''<changefreq>weekly</changefreq><priority>1.0</priority>'' @ ''</url>''"

definition sitemapHeader :: string where
  "sitemapHeader =
     ''<?xml version='' @ dq @ ''1.0'' @ dq @ '' encoding='' @ dq @ ''UTF-8'' @ dq
     @ ''?><urlset xmlns='' @ dq @ ''http://www.sitemaps.org/schemas/sitemap/0.9'' @ dq
     @ ''>''"

definition createSitemap :: "env \<Rightarrow> string list \<Rightarrow> unit io" where
  "createSitemap e URLs =
     (\<lambda>w. writeFile e (path_join [OUTPUT e, ''sitemap.xml''])
             (sitemapHeader @ concat (map (sitemapEntry e) (sitemapURLs e w URLs))
              @ ''</urlset>'') w)"


section \<open>The pipeline\<close>

definition emit :: "event \<Rightarrow> unit io" where
  "emit ev = (\<lambda>w. (Inr (), w\<lparr>trace := trace w @ [ev]\<rparr>))"

text \<open>\<open>await task().catch(error(ident))\<close> with no other promise in flight: the promise is
  started, the task runs under its handler, the promise is settled.\<close>

definition awaitCaught :: "string \<Rightarrow> unit io \<Rightarrow> unit io" where
  "awaitCaught ident task =
     io_bind (emit (Started ident))
       (\<lambda>_. io_bind (io_catch task (error_handler ident)) (\<lambda>_. emit (Settled ident)))"

text \<open>The four enumerations of the concurrent stage group and the courses, where they
  return.\<close>

definition topLevelScripts :: "env \<Rightarrow> asset list" where
  "topLevelScripts e = filter (\<lambda>a. \<not> endsWith (src a) ''.d.ts'') (getAssetFiles e ''*.ts'')"

definition topLevelStyles :: "env \<Rightarrow> asset list" where
  "topLevelStyles e = getAssetFiles e ''*.scss''"

definition courseScripts :: "env \<Rightarrow> asset list" where
  "courseScripts e = findFiles e ''!(shared|_*)/*.ts'' (CONTENT e) (OUTPUT e @ ''/content'')"

definition courseStyles :: "env \<Rightarrow> asset list" where
  "courseStyles e = findFiles e ''!(shared|_*)/*.scss'' (CONTENT e) (OUTPUT e @ ''/content'')"

definition courses :: "env \<Rightarrow> string list" where
  "courses e = glob_sync e ''!(shared|_*|*.*)'' (CONTENT e)"

definition courseIdent :: "string \<Rightarrow> string \<Rightarrow> string" where
  "courseIdent cid locale = ''course '' @ cid @ '' ['' @ locale @ '']''"

text \<open>A promise that has been started and has not settled yet,
  \<open>task().catch(error(ident))\<close>: the identity given to \<open>error\<close> and the task. The effects
  of a promise on the state are taken at the moment it settles: the task runs under its
  handler, and the promise is settled.\<close>

type_synonym promise = "string \<times> unit io"

definition settle :: "promise \<Rightarrow> unit io" where
  "settle p =
     io_bind (io_catch (snd p) (error_handler (fst p))) (\<lambda>_. emit (Settled (fst p)))"

text \<open>The state of a call of \<open>buildAssets\<close>: the program state, the promises in flight in
  the order in which they were started, and the schedule. The schedule says, for each
  \<open>await\<close> of \<open>buildAssets\<close> in turn, which promises in flight settle while \<open>buildAssets\<close>
  is suspended there, and in which order: each by its position among the promises then
  in flight. A position that is out of range settles nothing.\<close>

record build_state =
  bworld :: world
  pending :: "promise list"
  schedule :: "nat list list"

type_synonym 'a build = "build_state \<Rightarrow> (exn + 'a) \<times> build_state"

text \<open>One statement after another; an exception ends the call.\<close>

definition b_then :: "unit build \<Rightarrow> unit build \<Rightarrow> unit build" where
  "b_then m k s = (case m s of (Inl x, s') \<Rightarrow> (Inl x, s') | (Inr v, s') \<Rightarrow> k s')"

definition b_return :: "unit build" where
  "b_return s = (Inr (), s)"

fun b_forEach :: "'a list \<Rightarrow> ('a \<Rightarrow> unit build) \<Rightarrow> unit build" where
  "b_forEach [] body = b_return"
| "b_forEach (x # xs) body = b_then (body x) (b_forEach xs body)"

text \<open>An enumeration evaluated in the body of \<open>buildAssets\<close>, outside every handler: if it
  throws, so does \<open>buildAssets\<close>.\<close>

definition b_guard :: "exn option \<Rightarrow> unit build" where
  "b_guard thrown s = (case thrown of Some x \<Rightarrow> (Inl x, s) | None \<Rightarrow> (Inr (), s))"

text \<open>An effect on the program state.\<close>

definition inWorld :: "unit io \<Rightarrow> build_state \<Rightarrow> build_state" where
  "inWorld m s = s\<lparr>bworld := snd (m (bworld s))\<rparr>"

text \<open>The promise at position \<open>n\<close> settles.\<close>

definition settleAt :: "nat \<Rightarrow> build_state \<Rightarrow> build_state" where
  "settleAt n s =
     (if n < length (pending s)
      then (inWorld (settle (pending s ! n)) s)
             \<lparr>pending := take n (pending s) @ drop (Suc n) (pending s)\<rparr>
      else s)"

definition settleMany :: "nat list \<Rightarrow> build_state \<Rightarrow> build_state" where
  "settleMany ns s = foldl (\<lambda>s' n. settleAt n s') s ns"

text \<open>The next entry of the schedule; an exhausted schedule lets nothing settle early.\<close>

definition takeTurn :: "build_state \<Rightarrow> nat list \<times> build_state" where
  "takeTurn s =
     (case schedule s of [] \<Rightarrow> ([], s) | ns # rest \<Rightarrow> (ns, s\<lparr>schedule := rest\<rparr>))"

text \<open>\<open>promises.push(task().catch(error(ident)))\<close>: the promise is started and joins the
  promises in flight.\<close>

definition launch :: "string \<Rightarrow> unit io \<Rightarrow> unit build" where
  "launch ident task s =
     (Inr (), (inWorld (emit (Started ident)) s)\<lparr>pending := pending s @ [(ident, task)]\<rparr>)"

text \<open>\<open>await task().catch(error(ident))\<close> in \<open>buildAssets\<close>: the promise is started; while
  \<open>buildAssets\<close> is suspended, the promises in flight that the schedule names settle;
  then the awaited promise settles and \<open>buildAssets\<close> goes on.\<close>

definition awaitPromise :: "string \<Rightarrow> unit io \<Rightarrow> unit build" where
  "awaitPromise ident task s =
     (case takeTurn s of
        (ns, s0) \<Rightarrow>
          (Inr (), inWorld (settle (ident, task))
                     (settleMany ns (inWorld (emit (Started ident)) s0))))"

text \<open>\<open>await Promise.all(promises)\<close>: every promise in flight settles, first those that
  the schedule names, then the others in the order in which they were started. None of
  them rejects, since each carries its handler.\<close>

definition awaitAll :: "unit build" where
  "awaitAll s =
     (case takeTurn s of
        (ns, s0) \<Rightarrow> (Inr (), settleMany (ns @ replicate (length (pending s0)) 0) s0))"

text \<open>The concurrent group of \<open>buildAssets\<close>, from the first loop to
  \<open>await Promise.all(promises)\<close>: each loop evaluates its enumeration, then starts one
  promise for each file; the polyfill is awaited between the first two loops.\<close>

definition groupStage :: "env \<Rightarrow> bool \<Rightarrow> bool \<Rightarrow> unit build" where
  "groupStage e minify watch =
     b_then (b_guard (getAssetFiles_error e ''*.ts''))
    (b_then (b_forEach (topLevelScripts e) (\<lambda>a.
               launch (src a) (bundleScripts e (src a) (dest a) minify watch noOptions)))
    (b_then (awaitPromise ''polyfill.js'' (createPolyfill e))
    (b_then (b_guard (getAssetFiles_error e ''*.scss''))
    (b_then (b_forEach (topLevelStyles e) (\<lambda>a.
               launch (src a) (bundleStyles e (src a) (dest a) minify watch)))
    (b_then (b_guard (findFiles_error e ''!(shared|_*)/*.ts'' (CONTENT e)
                        (OUTPUT e @ ''/content'')))
    (b_then (b_forEach (courseScripts e) (\<lambda>a.
               launch (src a)
                 (bundleScripts e (src a) (dest a) minify watch
                    (noOptions\<lparr>opt_name := Some ''StepFunctions''\<rparr>))))
    (b_then (b_guard (findFiles_error e ''!(shared|_*)/*.scss'' (CONTENT e)
                        (OUTPUT e @ ''/content'')))
    (b_then (b_forEach (courseStyles e) (\<lambda>a.
               launch (src a) (bundleStyles e (src a) (dest a) minify watch)))
            awaitAll))))))))"

text \<open>The course stage of \<open>buildAssets\<close>: the enumeration of the courses, then the two
  nested loops with one awaited call of \<open>bundleMarkdown\<close> for each course and locale.\<close>

definition courseStage :: "env \<Rightarrow> bool \<Rightarrow> string list \<Rightarrow> unit build" where
  "courseStage e watch locales =
     b_then (b_guard (glob_error e ''!(shared|_*|*.*)'' (CONTENT e)))
            (b_forEach (courses e) (\<lambda>cid.
               b_forEach locales (\<lambda>locale.
                 awaitPromise (courseIdent cid locale)
                   (bundleMarkdown e cid locale locales watch (CONTENT e)))))"

text \<open>\<open>buildAssets(minify, watch, locales)\<close>: the icon sprite, the concurrent group, the
  course stage, the sitemap.\<close>

definition buildAssets :: "env \<Rightarrow> bool \<Rightarrow> bool \<Rightarrow> string list \<Rightarrow> unit build" where
  "buildAssets e minify watch locales =
     b_then (awaitPromise ''icons.svg'' (bundleIcons e))
    (b_then (groupStage e minify watch)
    (b_then (courseStage e watch locales)
            (awaitPromise ''sitemap.xml'' (createSitemap e []))))"

text \<open>A call of \<open>buildAssets\<close> in the state \<open>w\<close>, with no promise in flight, under a
  schedule: what it returns or throws, and the state it leaves.\<close>

definition startBuild :: "nat list list \<Rightarrow> world \<Rightarrow> build_state" where
  "startBuild sched w = \<lparr>bworld = w, pending = [], schedule = sched\<rparr>"

definition runBuild ::
  "env \<Rightarrow> bool \<Rightarrow> bool \<Rightarrow> string list \<Rightarrow> nat list list \<Rightarrow> world \<Rightarrow> (exn + unit) \<times> world" where
  "runBuild e minify watch locales sched w =
     (fst (buildAssets e minify watch locales (startBuild sched w)),
      bworld (snd (buildAssets e minify watch locales (startBuild sched w))))"


section \<open>Watch mode\<close>

text \<open>Calling a registered callback: each repeats its build with the arguments it closed
  over; the style callback leaves \<open>watch\<close> at its default \<open>false\<close>, the other two pass
  \<open>false\<close>.\<close>

definition runRebuild :: "env \<Rightarrow> rebuild \<Rightarrow> unit io" where
  "runRebuild e callback =
     (case callback of
        RebuildStyles srcPath destPath minify \<Rightarrow> bundleStyles e srcPath destPath minify False
      | RebuildScripts srcPath destPath minify opts \<Rightarrow>
          bundleScripts e srcPath destPath minify False opts
      | RebuildMarkdown cid locale allLocales base \<Rightarrow>
          bundleMarkdown e cid locale allLocales False base)"

text \<open>Modelled from the spec: the change event of \<open>watchFiles\<close> (\<open>./utilities\<close>), which is
  not among the sources. A change of a file invokes the callback of every registration
  that lists the file, and nothing else; a callback that throws stops no other one.\<close>

definition fileChanged :: "env \<Rightarrow> string \<Rightarrow> unit io" where
  "fileChanged e changed =
     (\<lambda>w. io_forEach (filter (\<lambda>r. changed \<in> set (fst r)) (watching w))
             (\<lambda>r. io_catch (runRebuild e (snd r)) (\<lambda>_. io_return ())) w)"


section \<open>Example projects\<close>

text \<open>A small project: one script and one declaration file in the project root, one
  stylesheet and one icon in the core root, two courses; every transform succeeds. The
  bundled script mentions the icon sprite twice.\<close>

definition demoEnv :: env where
  "demoEnv =
     \<lparr>PROJECT_ASSETS = ''/site/frontend'', STUDIO_ASSETS = ''/studio/frontend'',
      CONTENT = ''/site/content'', OUTPUT = ''/site/public'',
      CONFIG_banner = ''Demo'', CONFIG_domain = ''example.org'', CONFIG_sitemap = [''/about''],
      process_cwd = ''/site'', module_dirname = ''/studio/build'',
      glob_sync = (\<lambda>pattern root.
         if pattern = ''{*,*/index}.ts'' \<and> root = ''/site/frontend''
           then [''app.ts'', ''types.d.ts'']
         else if pattern = ''{*,*/index}.scss'' \<and> root = ''/studio/frontend''
           then [''main.scss'']
         else if pattern = ''assets/icons/{*,*/index}.svg'' \<and> root = ''/studio/frontend''
           then [''assets/icons/arrow.svg'']
         else if pattern = ''!(shared|_*|*.*)'' then [''algebra'', ''geometry'']
         else []),
      glob_error = (\<lambda>_ _. None),
      findFiles = (\<lambda>_ _ _. []),
      findFiles_error = (\<lambda>_ _ _. None),
      readFile = (\<lambda>p. Inr (if p = ''/studio/frontend/assets/icons/arrow.svg''
                            then ''<svg viewBox=0><path/></svg>'' else ''polyfill'')),
      writeFile_error = (\<lambda>_. None),
      textHash = (\<lambda>t. ''1a2b3c4d5e6f''),
      esbuild_build = (\<lambda>a. Inr (''load(/icons.svg);show(/icons.svg)'',
                                 [''frontend/app.ts'', ''node_modules/lib/index.js''])),
      sass_renderSync = (\<lambda>p. Inr (''a{}'', [p, ''/studio/frontend/_vars.scss''])),
      postcss_process = (\<lambda>rtl minify css. Inr css),
      parseCourse = (\<lambda>dir locale allLocales.
         Inr (Some \<lparr>course = Some ''{}'', srcFile = dir @ ''/content.md''\<rparr>,
              [''/course'' @ drop 13 dir]))\<rparr>"

text \<open>The same project after an edit of the stylesheet: it now includes another file.\<close>

definition editedEnv :: env where
  "editedEnv =
     demoEnv\<lparr>sass_renderSync := (\<lambda>p. Inr (''b{}'', [p, ''/studio/frontend/_theme.scss'']))\<rparr>"

text \<open>The project with a script that does not compile and an icon that cannot be read.\<close>

definition brokenEnv :: env where
  "brokenEnv =
     demoEnv\<lparr>esbuild_build := (\<lambda>a. Inl ''SyntaxError''),
              readFile := (\<lambda>p. Inl ''ENOENT'')\<rparr>"

text \<open>The project with a core root whose stylesheets cannot be scanned.\<close>

definition unreadableEnv :: env where
  "unreadableEnv =
     demoEnv\<lparr>glob_error := (\<lambda>pattern root.
        if pattern = ''{*,*/index}.scss'' \<and> root = ''/studio/frontend'' then Some ''ENOTDIR''
        else None)\<rparr>"

text \<open>The project root has \<open>foo.ts\<close> and \<open>foo/index.ts\<close>, the core root has \<open>foo.ts\<close> and
  \<open>bar.ts\<close>.\<close>

definition clashEnv :: env where
  "clashEnv =
     demoEnv\<lparr>glob_sync := (\<lambda>pattern root.
        if pattern = ''{*,*/index}.ts'' then
          (if root = ''/site/frontend'' then [''foo.ts'', ''foo/index.ts'']
           else [''foo.ts'', ''bar.ts''])
        else [])\<rparr>"

text \<open>The project root has \<open>foo.ts\<close>, the core root has \<open>foo/index.ts\<close> and \<open>bar.ts\<close>.\<close>

definition overlayEnv :: env where
  "overlayEnv =
     demoEnv\<lparr>glob_sync := (\<lambda>pattern root.
        if pattern = ''{*,*/index}.ts'' then
          (if root = ''/site/frontend'' then [''foo.ts''] else [''foo/index.ts'', ''bar.ts''])
        else [])\<rparr>"


section \<open>Notions used in the statements\<close>

text \<open>A computation keeps a component of the state, only appends to a component, and has
  a result that does not depend on the state it starts in.\<close>

definition keeps :: "(world \<Rightarrow> 'b) \<Rightarrow> 'a io \<Rightarrow> bool" where
  "keeps g m = (\<forall>w. g (snd (m w)) = g w)"

definition grows :: "(world \<Rightarrow> 'b list) \<Rightarrow> 'a io \<Rightarrow> bool" where
  "grows g m = (\<forall>w. \<exists>xs. g (snd (m w)) = g w @ xs)"

definition stable :: "'a io \<Rightarrow> bool" where
  "stable m = (\<forall>w w'. fst (m w) = fst (m w'))"

text \<open>The outcome of a unit's build: the exception it throws, or a normal return.\<close>

definition unitResult :: "unit io \<Rightarrow> exn + unit" where
  "unitResult task = fst (task initial_world)"

text \<open>Every unit of a run of \<open>buildAssets\<close>, with the identity given to \<open>error\<close>.\<close>

definition concurrentUnits :: "env \<Rightarrow> bool \<Rightarrow> bool \<Rightarrow> (string \<times> unit io) list" where
  "concurrentUnits e minify watch =
     map (\<lambda>a. (src a, bundleScripts e (src a) (dest a) minify watch noOptions))
         (topLevelScripts e)
     @ [(''polyfill.js'', createPolyfill e)]
     @ map (\<lambda>a. (src a, bundleStyles e (src a) (dest a) minify watch)) (topLevelStyles e)
     @ map (\<lambda>a. (src a, bundleScripts e (src a) (dest a) minify watch
                             (noOptions\<lparr>opt_name := Some ''StepFunctions''\<rparr>)))
           (courseScripts e)
     @ map (\<lambda>a. (src a, bundleStyles e (src a) (dest a) minify watch)) (courseStyles e)"

definition courseUnits :: "env \<Rightarrow> bool \<Rightarrow> string list \<Rightarrow> (string \<times> unit io) list" where
  "courseUnits e watch locales =
     map (\<lambda>(cid, locale). (courseIdent cid locale,
                            bundleMarkdown e cid locale locales watch (CONTENT e)))
         (List.product (courses e) locales)"

definition unitTasks :: "env \<Rightarrow> bool \<Rightarrow> bool \<Rightarrow> string list \<Rightarrow> (string \<times> unit io) list" where
  "unitTasks e minify watch locales =
     [(''icons.svg'', bundleIcons e)] @ concurrentUnits e minify watch
     @ courseUnits e watch locales @ [(''sitemap.xml'', createSitemap e [])]"

text \<open>The five enumerations in the body of \<open>buildAssets\<close> return.\<close>

definition enumerationsReturn :: "env \<Rightarrow> bool" where
  "enumerationsReturn e =
     (getAssetFiles_error e ''*.ts'' = None
      \<and> getAssetFiles_error e ''*.scss'' = None
      \<and> findFiles_error e ''!(shared|_*)/*.ts'' (CONTENT e) (OUTPUT e @ ''/content'') = None
      \<and> findFiles_error e ''!(shared|_*)/*.scss'' (CONTENT e) (OUTPUT e @ ''/content'') = None
      \<and> glob_error e ''!(shared|_*|*.*)'' (CONTENT e) = None)"

text \<open>What a unit writes when it is run in the state \<open>w\<close>.\<close>

definition unitWrites :: "'a io \<Rightarrow> world \<Rightarrow> (string \<times> string) list" where
  "unitWrites task w = drop (length (written w)) (written (snd (task w)))"

text \<open>What the document transform puts on disk for one course and locale, and the URLs
  it adds: the serialised course that \<open>parseCourse\<close> returns, under
  \<open>content/<course>/data_<locale>.json\<close>, unless there is none or the write throws.\<close>

definition courseWrites :: "env \<Rightarrow> string \<Rightarrow> string \<Rightarrow> string list \<Rightarrow> (string \<times> string) list" where
  "courseWrites e cid locale allLocales =
     (case parseCourse e (path_join [CONTENT e, cid]) locale allLocales of
        Inl x \<Rightarrow> []
      | Inr (parsed, urls) \<Rightarrow>
          (case parsed of
             None \<Rightarrow> []
           | Some d \<Rightarrow>
               (case course d of
                  None \<Rightarrow> []
                | Some json \<Rightarrow>
                    (case writeFile_error e (path_join [OUTPUT e, ''content'', cid,
                                                        ''data_'' @ locale @ ''.json'']) of
                       Some x \<Rightarrow> []
                     | None \<Rightarrow> [(path_join [OUTPUT e, ''content'', cid,
                                              ''data_'' @ locale @ ''.json''], json)]))))"

definition courseURLs :: "env \<Rightarrow> string \<Rightarrow> string \<Rightarrow> string list \<Rightarrow> string list" where
  "courseURLs e cid locale allLocales =
     (case parseCourse e (path_join [CONTENT e, cid]) locale allLocales of
        Inl x \<Rightarrow> []
      | Inr (parsed, urls) \<Rightarrow> urls)"

text \<open>What the sitemap stage writes in the state \<open>w\<close>: the document of the course URLs of
  \<open>w\<close>, unless the write throws.\<close>

definition sitemapWrites :: "env \<Rightarrow> world \<Rightarrow> (string \<times> string) list" where
  "sitemapWrites e w =
     (case writeFile_error e (path_join [OUTPUT e, ''sitemap.xml'']) of
        Some x \<Rightarrow> []
      | None \<Rightarrow> [(path_join [OUTPUT e, ''sitemap.xml''],
                   sitemapHeader @ concat (map (sitemapEntry e) (sitemapURLs e w []))
                   @ ''</urlset>'')])"

text \<open>A unit's build is orderly when its result does not depend on the state it starts
  in, it leaves the promise events and the published icon path alone, it only appends
  to the log and to the files written, and what it writes depends on the state only
  through the published icon path.\<close>

definition sameWrites :: "'a io \<Rightarrow> bool" where
  "sameWrites m = (\<forall>w w'. iconsPath w = iconsPath w' \<longrightarrow> unitWrites m w = unitWrites m w')"

definition orderly :: "'a io \<Rightarrow> bool" where
  "orderly m =
     (stable m \<and> keeps trace m \<and> keeps iconsPath m \<and> grows logged m \<and> grows written m
      \<and> sameWrites m)"

text \<open>The number of promises in flight after a sequence of events.\<close>

fun inFlight :: "event list \<Rightarrow> int" where
  "inFlight [] = 0"
| "inFlight (Started p # evs) = inFlight evs + 1"
| "inFlight (Settled p # evs) = inFlight evs - 1"

text \<open>What a component of the state has gained since the state \<open>w0\<close>.\<close>

definition since :: "(world \<Rightarrow> 'a list) \<Rightarrow> world \<Rightarrow> world \<Rightarrow> 'a list" where
  "since g w0 w = drop (length (g w0)) (g w)"

text \<open>A promise has finished in a state, since the state \<open>w0\<close>: since then it was
  started and has settled, what its unit writes is among the files written, and if the
  unit throws the failure is in the log under the promise's identity.\<close>

definition finished :: "world \<Rightarrow> promise \<Rightarrow> world \<Rightarrow> bool" where
  "finished w0 u w =
     (Started (fst u) \<in> set (since trace w0 w) \<and> Settled (fst u) \<in> set (since trace w0 w)
      \<and> set (unitWrites (snd u) w) \<subseteq> set (since written w0 w)
      \<and> (\<forall>x. unitResult (snd u) = Inl x \<longrightarrow> Failure (fst u) x \<in> set (since logged w0 w)))"

text \<open>A later state: the same published icon path, and events, log and files written
  only appended to.\<close>

definition laterWorld :: "world \<Rightarrow> world \<Rightarrow> bool" where
  "laterWorld w w' =
     (iconsPath w' = iconsPath w
      \<and> (\<exists>a. trace w' = trace w @ a)
      \<and> (\<exists>b. logged w' = logged w @ b)
      \<and> (\<exists>c. written w' = written w @ c))"

text \<open>The invariant of a call of \<open>buildAssets\<close> after the state \<open>w0\<close>: the state is a
  later one, every promise in flight is orderly and was started since \<open>w0\<close>. A step of
  the call keeps it, leads to a later state in which the number of promises in flight
  has changed as the events say, and leaves each promise that was in flight or that it
  started either in flight or finished.\<close>

definition good :: "world \<Rightarrow> build_state \<Rightarrow> bool" where
  "good w0 s =
     (laterWorld w0 (bworld s)
      \<and> (\<forall>u \<in> set (pending s).
            orderly (snd u) \<and> Started (fst u) \<in> set (since trace w0 (bworld s))))"

definition later :: "build_state \<Rightarrow> build_state \<Rightarrow> bool" where
  "later s s' =
     (laterWorld (bworld s) (bworld s')
      \<and> inFlight (since trace (bworld s) (bworld s'))
          = int (length (pending s')) - int (length (pending s)))"

definition step :: "world \<Rightarrow> build_state \<Rightarrow> build_state \<Rightarrow> promise list \<Rightarrow> bool" where
  "step w0 s s' new =
     (good w0 s' \<and> later s s'
      \<and> (\<forall>u \<in> set (pending s) \<union> set new.
            u \<in> set (pending s') \<or> finished w0 u (bworld s')))"

definition conducts :: "world \<Rightarrow> unit build \<Rightarrow> promise list \<Rightarrow> bool" where
  "conducts w0 m new =
     ((\<forall>u \<in> set new. orderly (snd u))
      \<and> (\<forall>s. good w0 s \<longrightarrow> fst (m s) = Inr () \<and> step w0 s (snd (m s)) new))"

text \<open>A step of the call that, when every promise in flight keeps the course URLs,
  keeps them and that property.\<close>

definition still :: "unit build \<Rightarrow> bool" where
  "still m =
     (\<forall>s. (\<forall>u \<in> set (pending s). keeps COURSE_URLS (snd u)) \<longrightarrow>
           (\<forall>u \<in> set (pending (snd (m s))). keeps COURSE_URLS (snd u))
           \<and> COURSE_URLS (bworld (snd (m s))) = COURSE_URLS (bworld s))"

text \<open>A step of the call that, started with no promise in flight, returns with none in
  flight, and has added these events, files and course URLs.\<close>

definition inSeries ::
  "unit build \<Rightarrow> event list \<Rightarrow> (string \<times> string) list \<Rightarrow> string list \<Rightarrow> bool" where
  "inSeries m evs files urls =
     (\<forall>s. pending s = [] \<longrightarrow>
           fst (m s) = Inr () \<and> pending (snd (m s)) = []
           \<and> trace (bworld (snd (m s))) = trace (bworld s) @ evs
           \<and> written (bworld (snd (m s))) = written (bworld s) @ files
           \<and> COURSE_URLS (bworld (snd (m s)))
               = foldl addCourseURL (COURSE_URLS (bworld s)) urls)"

text \<open>The promise events of the course stage and of the sitemap.\<close>

definition courseTrace :: "env \<Rightarrow> string list \<Rightarrow> event list" where
  "courseTrace e locales =
     concat (map (\<lambda>(cid, locale). [Started (courseIdent cid locale),
                                    Settled (courseIdent cid locale)])
                 (List.product (courses e) locales))"

definition sitemapTrace :: "event list" where
  "sitemapTrace = [Started ''sitemap.xml'', Settled ''sitemap.xml'']"




section \<open>Declaration files\<close>

text \<open>C10. For every source path ending in \<open>.d.ts\<close>, \<open>bundleScripts\<close> returns at once:
  it writes no file for any locale and leaves the whole state as it was; and such a path
  is not among the top-level script units that \<open>buildAssets\<close> enumerates.\<close>

theorem declaration_files_skipped:
  assumes "endsWith srcPath ''.d.ts''"
  shows "bundleScripts e srcPath destPath minify watch opts w = (Inr (), w)
         \<and> srcPath \<notin> src ` set (topLevelScripts e)"
  using assms by (auto simp: bundleScripts_def io_return_def topLevelScripts_def Let_def)

theorem declaration_files_skipped_witness:
  "endsWith ''/site/frontend/types.d.ts'' ''.d.ts''
   \<and> bundleScripts demoEnv ''/site/frontend/types.d.ts'' ''/site/public/types.d.ts''
         False True noOptions initial_world = (Inr (), initial_world)
   \<and> ''/site/frontend/types.d.ts'' \<notin> src ` set (topLevelScripts demoEnv)"
proof -
  have h: "endsWith ''/site/frontend/types.d.ts'' ''.d.ts''"
    by (simp add: endsWith_def)
  show ?thesis
    using h declaration_files_skipped [OF h] by blast
qed


section \<open>The overlay of the two roots\<close>

lemma getAssetFiles_src:
  "map src (getAssetFiles e pat) =
     filter (\<lambda>q. basename q \<notin> basename ` set (rootFiles e (PROJECT_ASSETS e) pat))
            (rootFiles e (STUDIO_ASSETS e) pat)
     @ rootFiles e (PROJECT_ASSETS e) pat"
  by (simp add: getAssetFiles_def Let_def comp_def)

text \<open>C2, as stated, fails when the project root itself has two matches with one
  canonical name (\<open>foo.ts\<close> and \<open>foo/index.ts\<close>): both are returned, and only the core
  root's \<open>foo.ts\<close> is left out.\<close>

theorem getAssetFiles_override_counterexample:
  "map basename (rootFiles clashEnv (STUDIO_ASSETS clashEnv) ''*.ts'') = [''foo.ts'', ''bar.ts'']
   \<and> map basename (rootFiles clashEnv (PROJECT_ASSETS clashEnv) ''*.ts'') = [''foo.ts'', ''foo.ts'']
   \<and> getAssetFiles clashEnv ''*.ts''
       = [\<lparr>src = ''/studio/frontend/bar.ts'', dest = ''/site/public/bar.ts''\<rparr>,
          \<lparr>src = ''/site/frontend/foo.ts'', dest = ''/site/public/foo.ts''\<rparr>,
          \<lparr>src = ''/site/frontend/foo/index.ts'', dest = ''/site/public/foo.ts''\<rparr>]"
  by code_simp

text \<open>C2, amended. When exactly one match \<open>p\<close> of the project root has the canonical
  name \<open>n\<close>, the resolved list has exactly one entry with that canonical name, and it is
  \<open>p\<close> with the destination \<open>n\<close> under the output root, whatever the core root holds.
  The sources of the result are the core root's matches whose canonical name no project
  match has, followed by all matches of the project root.\<close>

theorem getAssetFiles_override:
  assumes "filter (\<lambda>q. basename q = n) (rootFiles e (PROJECT_ASSETS e) pat) = [p]"
  shows "filter (\<lambda>a. basename (src a) = n) (getAssetFiles e pat)
           = [\<lparr>src = p, dest = path_join [OUTPUT e, n]\<rparr>]
         \<and> map src (getAssetFiles e pat) =
             filter (\<lambda>q. basename q \<notin> basename ` set (rootFiles e (PROJECT_ASSETS e) pat))
                    (rootFiles e (STUDIO_ASSETS e) pat)
             @ rootFiles e (PROJECT_ASSETS e) pat"
proof -
  let ?P = "rootFiles e (PROJECT_ASSETS e) pat"
  let ?S = "rootFiles e (STUDIO_ASSETS e) pat"
  let ?mk = "\<lambda>s. \<lparr>src = s, dest = path_join [OUTPUT e, basename s]\<rparr>"
  have "p \<in> set (filter (\<lambda>q. basename q = n) ?P)"
    using assms by simp
  then have pn: "p \<in> set ?P" "basename p = n"
    by auto
  have studio: "filter (\<lambda>q. basename q = n) (filter (\<lambda>q. basename q \<notin> basename ` set ?P) ?S) = []"
    using pn by (auto simp: filter_empty_conv)
  have "filter (\<lambda>a. basename (src a) = n) (getAssetFiles e pat)
          = map ?mk (filter (\<lambda>q. basename q = n)
                       (filter (\<lambda>q. basename q \<notin> basename ` set ?P) ?S @ ?P))"
    by (simp add: getAssetFiles_def Let_def filter_map comp_def)
  also have "\<dots> = map ?mk [p]"
    using studio assms by simp
  finally show ?thesis
    using pn by (simp add: getAssetFiles_src)
qed

theorem getAssetFiles_override_witness:
  "filter (\<lambda>q. basename q = ''foo.ts'')
          (rootFiles overlayEnv (PROJECT_ASSETS overlayEnv) ''*.ts'') = [''/site/frontend/foo.ts'']
   \<and> filter (\<lambda>a. basename (src a) = ''foo.ts'') (getAssetFiles overlayEnv ''*.ts'')
       = [\<lparr>src = ''/site/frontend/foo.ts'', dest = ''/site/public/foo.ts''\<rparr>]"
proof -
  have h: "filter (\<lambda>q. basename q = ''foo.ts'')
             (rootFiles overlayEnv (PROJECT_ASSETS overlayEnv) ''*.ts'') = [''/site/frontend/foo.ts'']"
    by code_simp
  have d: "path_join [OUTPUT overlayEnv, ''foo.ts''] = ''/site/public/foo.ts''"
    by code_simp
  show ?thesis
    using h getAssetFiles_override [OF h] d by simp
qed


section \<open>Cache busting of the icon sprite in scripts\<close>

text \<open>C1. The script transform rewrites the first occurrence of \<open>/icons.svg\<close> only: the
  regular expression has no \<open>g\<close> flag, unlike the two replacements before it. Here the
  icon stage has published \<open>/icons.1a2b3c4d.svg\<close>, the bundle mentions the sprite twice,
  and the file written still contains the unversioned path.\<close>

theorem cacheBust_first_occurrence_only:
  "fst (bundleIcons demoEnv initial_world) = Inr ()
   \<and> iconsPath (snd (bundleIcons demoEnv initial_world)) = ''/icons.1a2b3c4d.svg''
   \<and> esbuild_build demoEnv
         \<lparr>entryPoint = ''/site/frontend/app.ts'', define_ENV = [CHR 0x22] @ ''WEB'' @ [CHR 0x22],
          minify_flag = False, globalName = None,
          pug_translate = translateOrKey noOptions ''en'', metafile = False\<rparr>
       = Inr (''load(/icons.svg);show(/icons.svg)'',
              [''frontend/app.ts'', ''node_modules/lib/index.js''])
   \<and> last (written (snd (bundleScripts demoEnv ''/site/frontend/app.ts''
                              ''/site/public/app.ts'' False False noOptions
                              (snd (bundleIcons demoEnv initial_world)))))
       = (''/site/public/app.js'', ''load(/icons.1a2b3c4d.svg);show(/icons.svg)'')"
  by code_simp


section \<open>Locale fan-out\<close>

text \<open>C4. The locale is inserted before the first \<open>.js\<close> of the destination path,
  which need not be the extension: for a project under \<open>/srv/node.js\<close> the French bundle
  of \<open>app.js\<close> is written to another directory, not to \<open>app.fr.js\<close>.\<close>

theorem localeDest_first_js_occurrence:
  "map fst (written (snd (bundleScripts demoEnv ''/srv/node.js/frontend/app.ts''
                            ''/srv/node.js/public/app.ts'' False False
                            (noOptions\<lparr>opt_locales := Some [''en'', ''fr'']\<rparr>)
                            initial_world)))
     = [''/srv/node.js/public/app.js'', ''/srv/node.fr.js/public/app.js'']"
  by code_simp


section \<open>The sitemap\<close>

text \<open>C7, as stated, fails where a URL occurs in two of the sources: the configured
  \<open>/about\<close> passed again by the caller gives two entries.\<close>

theorem createSitemap_repeats_counterexample:
  "sitemapURLs demoEnv initial_world [''/about''] = [''/'', ''/about'', ''/about'']
   \<and> createSitemap demoEnv [''/about''] initial_world
       = (Inr (), initial_world\<lparr>written :=
            [(''/site/public/sitemap.xml'',
              sitemapHeader @ sitemapEntry demoEnv ''/'' @ sitemapEntry demoEnv ''/about''
              @ sitemapEntry demoEnv ''/about'' @ ''</urlset>'')]\<rparr>)"
  by (simp add: sitemapURLs_def createSitemap_def writeFile_def demoEnv_def initial_world_def
      path_join_def path_normalize_def normalizeString_def normalize_step_def)

text \<open>C7, amended. The sitemap is one URL-set written to \<open>sitemap.xml\<close>; its entries are,
  in this order, the root path, the course URLs, the configured URLs and the caller's
  URLs. The URLs of the entries are the union of the four sources, a URL has as many
  entries as it has occurrences in them, and every entry carries the same change
  frequency and priority.\<close>

theorem createSitemap_document:
  assumes "writeFile_error e (path_join [OUTPUT e, ''sitemap.xml'']) = None"
  shows "createSitemap e URLs w
           = (Inr (), w\<lparr>written := written w @
                [(path_join [OUTPUT e, ''sitemap.xml''],
                  sitemapHeader @ concat (map (sitemapEntry e) (sitemapURLs e w URLs))
                  @ ''</urlset>'')]\<rparr>)
         \<and> set (sitemapURLs e w URLs)
             = {''/''} \<union> set (COURSE_URLS w) \<union> set (CONFIG_sitemap e) \<union> set URLs
         \<and> (\<forall>u. count_list (sitemapURLs e w URLs) u
                 = (if u = ''/'' then 1 else 0) + count_list (COURSE_URLS w) u
                   + count_list (CONFIG_sitemap e) u + count_list URLs u)
         \<and> (\<forall>u. sitemapEntry e u
                 = ''<url><loc>https://'' @ CONFIG_domain e @ u @ ''</loc>''
                   @ ''<changefreq>weekly</changefreq><priority>1.0</priority></url>'')"
  using assms
  by (auto simp: createSitemap_def writeFile_def sitemapURLs_def sitemapEntry_def)

theorem createSitemap_document_witness:
  "writeFile_error demoEnv (path_join [OUTPUT demoEnv, ''sitemap.xml'']) = None
   \<and> set (sitemapURLs demoEnv initial_world [''/about''])
       = {''/''} \<union> set (COURSE_URLS initial_world) \<union> set (CONFIG_sitemap demoEnv)
         \<union> set [''/about'']
   \<and> count_list (sitemapURLs demoEnv initial_world [''/about'']) ''/about'' = 2"
proof -
  have h: "writeFile_error demoEnv (path_join [OUTPUT demoEnv, ''sitemap.xml'']) = None"
    by (simp add: demoEnv_def)
  have c: "CONFIG_sitemap demoEnv = [''/about'']" "COURSE_URLS initial_world = []"
    by (simp_all add: demoEnv_def initial_world_def)
  show ?thesis
    using h createSitemap_document [OF h, of "[''/about'']" initial_world] c by simp
qed


section \<open>Watch mode: what a rebuild registers\<close>

subsection \<open>Components that a computation keeps\<close>

lemma keeps_return: "keeps g (io_return x)"
  by (simp add: keeps_def io_return_def)

lemma keeps_throw: "keeps g (io_throw x)"
  by (simp add: keeps_def io_throw_def)

lemma keeps_lift: "keeps g (io_lift r)"
  by (simp add: keeps_def io_lift_def)

lemma keeps_bind:
  assumes "keeps g m" and "\<And>v. keeps g (f v)"
  shows "keeps g (io_bind m f)"
  using assms by (auto simp: keeps_def io_bind_def split: prod.splits sum.splits) (metis snd_conv)+

lemma keeps_catch:
  assumes "keeps g m" and "\<And>x. keeps g (h x)"
  shows "keeps g (io_catch m h)"
  using assms by (auto simp: keeps_def io_catch_def split: prod.splits sum.splits) (metis snd_conv)+

lemma keeps_forEach:
  assumes "\<And>x. keeps g (body x)"
  shows "keeps g (io_forEach xs body)"
  by (induction xs) (simp_all add: keeps_return keeps_bind assms)

lemma keeps_writeFile:
  assumes "\<And>w v. g (w\<lparr>written := v\<rparr>) = g w"
  shows "keeps g (writeFile e p t)"
  using assms by (simp add: keeps_def writeFile_def split: option.splits)

lemma keeps_success:
  assumes "\<And>w v. g (w\<lparr>logged := v\<rparr>) = g w"
  shows "keeps g (success i)"
  using assms by (simp add: keeps_def success_def)

lemma keeps_error_handler:
  assumes "\<And>w v. g (w\<lparr>logged := v\<rparr>) = g w"
  shows "keeps g (error_handler i x)"
  using assms by (simp add: keeps_def error_handler_def)

lemma keeps_watchFiles:
  assumes "\<And>w v. g (w\<lparr>watching := v\<rparr>) = g w"
  shows "keeps g (watchFiles fs r)"
  using assms by (simp add: keeps_def watchFiles_def)

lemma keeps_setIconsPath:
  assumes "\<And>w v. g (w\<lparr>iconsPath := v\<rparr>) = g w"
  shows "keeps g (setIconsPath p)"
  using assms by (simp add: keeps_def setIconsPath_def)

lemmas keeps_intros =
  keeps_return keeps_throw keeps_lift keeps_bind keeps_catch keeps_forEach keeps_writeFile
  keeps_success keeps_error_handler keeps_watchFiles keeps_setIconsPath

subsection \<open>A rebuild makes no registration\<close>

lemma keeps_watching_bundleStyles: "keeps watching (bundleStyles e s d m False)"
  unfolding bundleStyles_def Let_def
  by (intro keeps_intros) (auto intro!: keeps_intros split: prod.splits)

lemma keeps_watching_bundleScriptLocale:
  "keeps watching (bundleScriptLocale e s d m wt opts l)"
  by (auto simp: keeps_def bundleScriptLocale_def io_bind_def writeFile_def io_return_def Let_def
      split: sum.splits prod.splits option.splits)

lemma keeps_watching_scriptLocales:
  "keeps watching (scriptLocales e s d m wt opts ls inputs)"
  by (induction ls arbitrary: inputs)
     (simp_all add: keeps_return keeps_bind keeps_watching_bundleScriptLocale)

lemma keeps_watching_bundleScripts: "keeps watching (bundleScripts e s d m False opts)"
  unfolding bundleScripts_def Let_def
  by (auto intro!: keeps_intros keeps_watching_scriptLocales)

lemma keeps_watching_bundleMarkdown: "keeps watching (bundleMarkdown e c l ls False b)"
  by (auto simp: keeps_def bundleMarkdown_def io_bind_def writeFile_def io_return_def
      success_def Let_def split: sum.splits prod.splits option.splits)

lemma keeps_watching_runRebuild: "keeps watching (runRebuild e callback)"
  by (cases callback)
     (simp_all add: runRebuild_def keeps_watching_bundleStyles keeps_watching_bundleScripts
        keeps_watching_bundleMarkdown)

lemma keeps_apply: "keeps g m \<Longrightarrow> g (snd (m w)) = g w"
  by (simp add: keeps_def)

text \<open>C3, amended. A rebuild makes no registration at all: each callback repeats its
  build with \<open>watch\<close> off, so after a rebuild, and after a change event as a whole, every
  registration is what it was, that of the rebuilt unit (with the dependency list of
  its first build) and those of all other units.\<close>

theorem rebuild_keeps_registrations:
  "watching (snd (runRebuild e callback w)) = watching w
   \<and> watching (snd (fileChanged e changed w)) = watching w"
proof
  show "watching (snd (runRebuild e callback w)) = watching w"
    by (rule keeps_apply [OF keeps_watching_runRebuild])
next
  have "keeps watching
          (io_forEach (filter (\<lambda>r. changed \<in> set (fst r)) (watching w))
             (\<lambda>r. io_catch (runRebuild e (snd r)) (\<lambda>_. io_return ())))"
    by (intro keeps_forEach keeps_catch keeps_watching_runRebuild keeps_return)
  then show "watching (snd (fileChanged e changed w)) = watching w"
    by (simp add: fileChanged_def keeps_def)
qed

text \<open>C3, as stated, fails: the stylesheet is built in watch mode, then edited so that it
  includes \<open>_theme.scss\<close> instead of \<open>_vars.scss\<close>; the change event rebuilds it (both
  outputs are written again) and the registration still lists \<open>_vars.scss\<close>.\<close>

theorem rebuild_reregisters_counterexample:
  "map fst (watching (snd (bundleStyles demoEnv ''/studio/frontend/main.scss''
                             ''/site/public/main.scss'' False True initial_world)))
     = [[''/studio/frontend/main.scss'', ''/studio/frontend/_vars.scss'']]
   \<and> sass_renderSync editedEnv ''/studio/frontend/main.scss''
       = Inr (''b{}'', [''/studio/frontend/main.scss'', ''/studio/frontend/_theme.scss''])
   \<and> map fst (watching (snd (fileChanged editedEnv ''/studio/frontend/main.scss''
                 (snd (bundleStyles demoEnv ''/studio/frontend/main.scss''
                         ''/site/public/main.scss'' False True initial_world)))))
       = [[''/studio/frontend/main.scss'', ''/studio/frontend/_vars.scss'']]
   \<and> map fst (written (snd (fileChanged editedEnv ''/studio/frontend/main.scss''
                 (snd (bundleStyles demoEnv ''/studio/frontend/main.scss''
                         ''/site/public/main.scss'' False True initial_world)))))
       = [''/site/public/main.css'', ''/site/public/main.rtl.css'',
          ''/site/public/main.css'', ''/site/public/main.rtl.css'']"
  by code_simp


section \<open>The published icon path\<close>

lemma indexOf_split:
  "indexOf s pat = Some i \<Longrightarrow> s = take i s @ pat @ drop (i + length pat) s"
proof (induction s arbitrary: i)
  case Nil
  then show ?case by (simp split: if_splits)
next
  case (Cons c cs)
  show ?case
  proof (cases "startsWith (c # cs) pat")
    case True
    with Cons.prems have "i = 0" by simp
    moreover from True have "take (length pat) (c # cs) = pat"
      by (simp add: startsWith_def)
    ultimately show ?thesis
      by (metis add_0 append_Nil append_take_drop_id take_0)
  next
    case False
    with Cons.prems obtain j where j: "indexOf cs pat = Some j" "i = Suc j"
      by auto
    from Cons.IH [OF j(1)] show ?thesis
      using j(2) by simp
  qed
qed

lemma cacheBustIcons_unversioned: "cacheBustIcons t ''/icons.svg'' = t"
proof (cases "indexOf t ''/icons.svg''")
  case None
  then show ?thesis by (simp add: cacheBustIcons_def replace_first_def)
next
  case (Some i)
  from indexOf_split [OF Some] show ?thesis
    using Some by (simp add: cacheBustIcons_def replace_first_def Let_def)
qed

text \<open>C9. When the module is loaded the published path is \<open>/icons.svg\<close>. After an icon
  stage that returns normally it is \<open>/icons.\<close>, the first 8 characters of the hash of the
  assembled sprite (the very text written to \<open>icons.svg\<close>), and \<open>.svg\<close>. When the sprite
  cannot be assembled the stage publishes nothing: awaited under its handler it returns
  normally, the failure is logged and the published path is unchanged; and with the
  unversioned path published, the cache-busting step leaves the script text as it is,
  so scripts keep referring to \<open>/icons.svg\<close>.\<close>

theorem iconsPath_published:
  "iconsPath initial_world = ''/icons.svg''
   \<and> (fst (bundleIcons e w) = Inr () \<longrightarrow>
         (\<exists>symbols. iconSprite e = Inr symbols
            \<and> iconsPath (snd (bundleIcons e w))
                = ''/icons.'' @ take 8 (textHash e symbols) @ ''.svg''
            \<and> written (snd (bundleIcons e w))
                = written w @ [(path_join [OUTPUT e, ''icons.svg''], symbols)]))
   \<and> (\<forall>x. iconSprite e = Inl x \<longrightarrow>
         fst (awaitCaught ''icons.svg'' (bundleIcons e) w) = Inr ()
         \<and> iconsPath (snd (awaitCaught ''icons.svg'' (bundleIcons e) w)) = iconsPath w
         \<and> Failure ''icons.svg'' x \<in> set (logged (snd (awaitCaught ''icons.svg'' (bundleIcons e) w))))
   \<and> (iconsPath w = ''/icons.svg'' \<longrightarrow> cacheBustIcons t (iconsPath w) = t)"
proof (intro conjI allI impI)
  show "iconsPath initial_world = ''/icons.svg''"
    by (simp add: initial_world_def)
next
  assume "fst (bundleIcons e w) = Inr ()"
  then show "\<exists>symbols. iconSprite e = Inr symbols
            \<and> iconsPath (snd (bundleIcons e w))
                = ''/icons.'' @ take 8 (textHash e symbols) @ ''.svg''
            \<and> written (snd (bundleIcons e w))
                = written w @ [(path_join [OUTPUT e, ''icons.svg''], symbols)]"
    by (cases "iconSprite e")
       (auto simp: bundleIcons_def io_bind_def io_lift_def setIconsPath_def writeFile_def
          success_def split: option.splits)
next
  fix x
  assume x: "iconSprite e = Inl x"
  then have b: "bundleIcons e = (\<lambda>w. (Inl x, w))"
    by (simp add: bundleIcons_def io_bind_def io_lift_def)
  show "fst (awaitCaught ''icons.svg'' (bundleIcons e) w) = Inr ()"
    by (simp add: b awaitCaught_def io_bind_def io_catch_def emit_def error_handler_def)
  show "iconsPath (snd (awaitCaught ''icons.svg'' (bundleIcons e) w)) = iconsPath w"
    by (simp add: b awaitCaught_def io_bind_def io_catch_def emit_def error_handler_def)
  show "Failure ''icons.svg'' x \<in> set (logged (snd (awaitCaught ''icons.svg'' (bundleIcons e) w)))"
    by (simp add: b awaitCaught_def io_bind_def io_catch_def emit_def error_handler_def)
next
  assume "iconsPath w = ''/icons.svg''"
  then show "cacheBustIcons t (iconsPath w) = t"
    by (simp add: cacheBustIcons_unversioned)
qed

theorem iconsPath_published_witness:
  "fst (bundleIcons demoEnv initial_world) = Inr ()
   \<and> iconsPath (snd (bundleIcons demoEnv initial_world)) = ''/icons.1a2b3c4d.svg''
   \<and> iconSprite brokenEnv = Inl ''ENOENT''
   \<and> iconsPath (snd (awaitCaught ''icons.svg'' (bundleIcons brokenEnv) initial_world))
       = ''/icons.svg''
   \<and> iconsPath initial_world = ''/icons.svg''
   \<and> cacheBustIcons ''load(/icons.svg)'' (iconsPath initial_world) = ''load(/icons.svg)''"
proof -
  have ok: "fst (bundleIcons demoEnv initial_world) = Inr ()"
    by code_simp
  have broken: "iconSprite brokenEnv = Inl ''ENOENT''"
    by code_simp
  have start: "iconsPath initial_world = ''/icons.svg''"
    by (simp add: initial_world_def)
  have hash: "\<And>symbols. take 8 (textHash demoEnv symbols) = ''1a2b3c4d''"
    by (simp add: demoEnv_def)
  show ?thesis
    using ok broken start hash
      iconsPath_published [of demoEnv initial_world]
      iconsPath_published [of brokenEnv initial_world "''load(/icons.svg)''"]
    by auto
qed


section \<open>Index normalization\<close>

subsection \<open>Splitting and joining paths\<close>










subsection \<open>The last component of a path\<close>















end
